theory Spec2Isabelle
  imports Complex_Main
begin

section \<open>Python values, logging and collaborator calls\<close>

text \<open>
  Floating-point numbers (timestamps, scores, vector components, the frame rate) are
  modelled by the real numbers they denote, with exact arithmetic.  Strings are Isabelle
  strings; a character is read as the code point of the same number (0 to 255).
\<close>

type_synonym vec = "real list"

datatype pyval = PNone | PStr string | PNum real | PList "real list"

text \<open>Python truthiness, as used by \<^verbatim>\<open>if vector:\<close>.\<close>

fun truthy :: "pyval \<Rightarrow> bool" where
  "truthy PNone = False"
| "truthy (PStr s) = (s \<noteq> [])"
| "truthy (PNum x) = (x \<noteq> 0)"
| "truthy (PList xs) = (xs \<noteq> [])"

type_synonym pydict = "string \<rightharpoonup> pyval"

text \<open>\<^verbatim>\<open>d.get(k)\<close>: the value stored under \<open>k\<close>, or \<^verbatim>\<open>None\<close>.\<close>

definition dict_get :: "pydict \<Rightarrow> string \<Rightarrow> pyval" where
  "dict_get d k = (case d k of None \<Rightarrow> PNone | Some v \<Rightarrow> v)"

record point =
  point_id :: string
  vector :: pyval
  payload :: pydict

datatype error =
    FileNotFoundError
  | ValueError
  | IndexError
  | ZeroDivisionError
  | ConversionError
  | OSError
  | KeyboardInterrupt

text \<open>
  A fault raised by a collaborator is either an \<^verbatim>\<open>Exception\<close> (caught by the
  \<^verbatim>\<open>except Exception\<close> handlers) or a \<^verbatim>\<open>BaseException\<close> outside that class
  (such as \<^verbatim>\<open>KeyboardInterrupt\<close>), which passes every handler of the source.
\<close>

datatype fault = Exc | BaseExc

datatype level = INFO | WARNING | ERROR

datatype log_msg =
    ErrorEncodingImages
  | ErrorEncodingText
  | CouldNotOpenVideo
  | VideoFpsIsZero
  | ErrorExtractingFrames error
  | ExtractedFrames nat
  | NoAudioTrack
  | ErrorTranscribingAudio
  | ExtractedAudioSegments nat
  | IndexedPoints nat string
  | FailedToUpsert
  | NoValidPoints
  | SearchFailed
  | StartingProcessing string
  | CompletedProcessing string
  | ErrorProcessingVideo string error

text \<open>
  What a call does besides returning: the log lines it writes and the calls it makes on
  its collaborators, in order.
\<close>

datatype event =
    Log level log_msg
  | ModelEncode nat
  | CapRelease
  | Upsert "point list"
  | QueryPoints vec int
  | RemoveFile string

section \<open>The embedding engine: \<^verbatim>\<open>embedding.py\<close>\<close>

text \<open>
  The model behind \<^verbatim>\<open>self.model.encode(...).tolist()\<close> is a collaborator: given a
  batch it returns the list of vectors, or raises (\<open>None\<close>).
\<close>

record 'img EmbeddingEngine =
  model_encode_images :: "'img list \<Rightarrow> vec list option"
  model_encode_text :: "string list \<Rightarrow> vec list option"

definition encode_images :: "'img EmbeddingEngine \<Rightarrow> 'img list \<Rightarrow> vec list \<times> event list" where
  "encode_images eng images =
     (if images = [] then ([], [])
      else (case model_encode_images eng images of
              Some embeddings \<Rightarrow> (embeddings, [ModelEncode (length images)])
            | None \<Rightarrow> ([], [ModelEncode (length images), Log ERROR ErrorEncodingImages])))"

definition encode_text :: "'img EmbeddingEngine \<Rightarrow> string list \<Rightarrow> vec list \<times> event list" where
  "encode_text eng text_list =
     (if text_list = [] then ([], [])
      else (case model_encode_text eng text_list of
              Some embeddings \<Rightarrow> (embeddings, [ModelEncode (length text_list)])
            | None \<Rightarrow> ([], [ModelEncode (length text_list), Log ERROR ErrorEncodingText])))"

text \<open>The batches sent to the underlying model during a call.\<close>

fun model_calls :: "event list \<Rightarrow> nat list" where
  "model_calls [] = []"
| "model_calls (ModelEncode n # evs) = n # model_calls evs"
| "model_calls (_ # evs) = model_calls evs"

section \<open>The media extractor: \<^verbatim>\<open>processor.py\<close>\<close>

text \<open>
  \<^verbatim>\<open>int(x)\<close> on a float truncates towards zero.
\<close>

definition py_int :: "real \<Rightarrow> int" where
  "py_int x = (if 0 \<le> x then \<lfloor>x\<rfloor> else \<lceil>x\<rceil>)"

text \<open>
  \<^verbatim>\<open>str.isspace\<close> on one character, for the code points below 256, and
  \<^verbatim>\<open>str.strip()\<close>, which removes leading and trailing whitespace.
\<close>

definition isspace :: "char \<Rightarrow> bool" where
  "isspace c = (of_char c \<in> {9, 10, 11, 12, 13, 28, 29, 30, 31, 32, 133, 160 :: nat})"

definition strip :: "string \<Rightarrow> string" where
  "strip s = rev (dropWhile isspace (rev (dropWhile isspace s)))"

text \<open>
  What the decoder yields for one successful \<^verbatim>\<open>cap.read()\<close>: the converted image
  (\<open>None\<close> when \<^verbatim>\<open>cvtColor\<close>/\<^verbatim>\<open>Image.fromarray\<close> raises on it) and the value of
  \<^verbatim>\<open>CAP_PROP_POS_MSEC\<close> after the read.
\<close>

record 'img raw_frame =
  rgb :: "'img option"
  pos_msec :: real

record 'img frame =
  pil_image :: 'img
  timestamp :: real

record segment =
  seg_start :: real
  seg_end :: real
  seg_text :: string

text \<open>
  The file at \<^verbatim>\<open>video_path\<close> as the collaborators (the file system, OpenCV, moviepy,
  Whisper) report it.  \<open>cap_frames\<close> are the frames that \<^verbatim>\<open>cap.read()\<close> returns
  before it first fails.
\<close>

record 'img video_file =
  file_exists :: bool
  cap_opened :: bool
  cap_fps :: real
  cap_frames :: "'img raw_frame list"
  clip_fault :: "fault option"
  has_audio :: bool
  mkstemp :: "string option"
  write_audiofile_fault :: "fault option"
  transcribe :: "fault + segment list option"
  remove_raises :: bool

text \<open>
  The \<^verbatim>\<open>while True\<close> loop of \<^verbatim>\<open>extract_frames\<close>: the frames collected so far and the
  exception that ended the loop, if one did.  \<^verbatim>\<open>current_frame % frame_interval\<close> raises
  \<^verbatim>\<open>ZeroDivisionError\<close> when the interval is 0.
\<close>

fun read_loop ::
  "int \<Rightarrow> 'img raw_frame list \<Rightarrow> int \<Rightarrow> 'img frame list \<Rightarrow> 'img frame list \<times> error option" where
  "read_loop frame_interval [] current_frame frames = (frames, None)"
| "read_loop frame_interval (f # rest) current_frame frames =
     (if frame_interval = 0 then (frames, Some ZeroDivisionError)
      else if current_frame mod frame_interval = 0 then
        (case rgb f of
           None \<Rightarrow> (frames, Some ConversionError)
         | Some img \<Rightarrow>
             read_loop frame_interval rest (current_frame + 1)
               (frames @ [\<lparr>pil_image = img, timestamp = pos_msec f / 1000\<rparr>]))
      else read_loop frame_interval rest (current_frame + 1) frames)"

definition extract_frames ::
  "'img video_file \<Rightarrow> int \<Rightarrow> (error + 'img frame list) \<times> event list" where
  "extract_frames v interval =
     (if \<not> file_exists v then (Inl FileNotFoundError, [])
      else if \<not> cap_opened v then (Inr [], [Log ERROR CouldNotOpenVideo])
      else if cap_fps v = 0 then (Inr [], [Log ERROR VideoFpsIsZero, CapRelease])
      else (case read_loop (py_int (cap_fps v * of_int interval)) (cap_frames v) 0 [] of
              (frames, None) \<Rightarrow>
                (Inr frames, [CapRelease, Log INFO (ExtractedFrames (length frames))])
            | (frames, Some e) \<Rightarrow>
                (Inr frames, [Log ERROR (ErrorExtractingFrames e), CapRelease,
                              Log INFO (ExtractedFrames (length frames))])))"

text \<open>
  The body of the \<^verbatim>\<open>try\<close> block of \<^verbatim>\<open>extract_audio_segments\<close>.  It leaves by the early
  \<^verbatim>\<open>return []\<close>, by reaching its end, or by a raised fault.  The state it leaves behind:
  \<^verbatim>\<open>temp_audio_path\<close>, \<^verbatim>\<open>segments_data\<close>, the set of existing files and the events.
\<close>

datatype body_exit = Returned | Completed | Raised fault

record try_state =
  temp_audio_path :: "string option"
  segments_data :: "segment list"
  files :: "string set"
  body_exit :: body_exit
  body_events :: "event list"

definition strip_segment :: "segment \<Rightarrow> segment" where
  "strip_segment s = \<lparr>seg_start = seg_start s, seg_end = seg_end s, seg_text = strip (seg_text s)\<rparr>"

definition audio_try :: "'img video_file \<Rightarrow> string set \<Rightarrow> try_state" where
  "audio_try v fs =
     (case clip_fault v of
        Some f \<Rightarrow> \<lparr>temp_audio_path = None, segments_data = [], files = fs,
                   body_exit = Raised f, body_events = []\<rparr>
      | None \<Rightarrow>
          if \<not> has_audio v then
            \<lparr>temp_audio_path = None, segments_data = [], files = fs,
             body_exit = Returned, body_events = [Log WARNING NoAudioTrack]\<rparr>
          else (case mkstemp v of
             None \<Rightarrow> \<lparr>temp_audio_path = None, segments_data = [], files = fs,
                       body_exit = Raised Exc, body_events = []\<rparr>
           | Some p \<Rightarrow>
               (case write_audiofile_fault v of
                  Some f \<Rightarrow> \<lparr>temp_audio_path = Some p, segments_data = [], files = insert p fs,
                             body_exit = Raised f, body_events = []\<rparr>
                | None \<Rightarrow>
                    (case transcribe v of
                       Inl f \<Rightarrow> \<lparr>temp_audio_path = Some p, segments_data = [],
                                 files = insert p fs, body_exit = Raised f, body_events = []\<rparr>
                     | Inr result \<Rightarrow>
                         \<lparr>temp_audio_path = Some p,
                          segments_data =
                            map strip_segment (case result of None \<Rightarrow> [] | Some segs \<Rightarrow> segs),
                          files = insert p fs, body_exit = Completed, body_events = []\<rparr>))))"

text \<open>
  The \<^verbatim>\<open>finally\<close> block: the temporary file is removed when the path is set and the
  file exists; an \<^verbatim>\<open>OSError\<close> of \<^verbatim>\<open>os.remove\<close> is swallowed and leaves the file.
\<close>

definition audio_finally :: "'img video_file \<Rightarrow> try_state \<Rightarrow> string set \<times> event list" where
  "audio_finally v st =
     (case temp_audio_path st of
        None \<Rightarrow> (files st, [])
      | Some p \<Rightarrow>
          if p \<noteq> [] \<and> p \<in> files st then
            (if remove_raises v then (files st, [RemoveFile p])
             else (files st - {p}, [RemoveFile p]))
          else (files st, []))"

definition extract_audio_segments ::
  "'img video_file \<Rightarrow> string set \<Rightarrow> (error + segment list) \<times> string set \<times> event list" where
  "extract_audio_segments v fs =
     (if \<not> file_exists v then (Inl FileNotFoundError, fs, [])
      else
        (let st = audio_try v fs;
             handler = (if body_exit st = Raised Exc then [Log ERROR ErrorTranscribingAudio] else []);
             (fs', cleanup) = audio_finally v st;
             evs = body_events st @ handler @ cleanup
         in case body_exit st of
              Returned \<Rightarrow> (Inr [], fs', evs)
            | Raised BaseExc \<Rightarrow> (Inl KeyboardInterrupt, fs', evs)
            | _ \<Rightarrow> (Inr (segments_data st), fs',
                     evs @ [Log INFO (ExtractedAudioSegments (length (segments_data st)))])))"


section \<open>The vector store: \<^verbatim>\<open>vector_store.py\<close>\<close>

text \<open>
  The Qdrant client is a collaborator: \<^verbatim>\<open>upsert\<close> may raise, \<^verbatim>\<open>query_points\<close>
  returns the scored hits or raises (\<open>None\<close>).  A hit's payload may be \<^verbatim>\<open>None\<close>.
\<close>

record hit =
  hit_score :: real
  hit_payload :: "pydict option"

record QdrantClient =
  upsert_raises :: "point list \<Rightarrow> bool"
  query_points :: "vec \<Rightarrow> int \<Rightarrow> hit list option"

record 'img VectorStore =
  collection_name :: string
  embedding_engine :: "'img EmbeddingEngine option"
  client :: QdrantClient

definition visual_payload :: "string \<Rightarrow> pydict \<Rightarrow> pydict \<Rightarrow> pydict" where
  "visual_payload video_id item metadata =
     [''video_id'' \<mapsto> PStr video_id,
      ''type'' \<mapsto> PStr ''visual'',
      ''timestamp'' \<mapsto> dict_get item ''timestamp''] ++ metadata"

definition audio_payload :: "string \<Rightarrow> pydict \<Rightarrow> pydict \<Rightarrow> pydict" where
  "audio_payload video_id item metadata =
     [''video_id'' \<mapsto> PStr video_id,
      ''type'' \<mapsto> PStr ''audio'',
      ''start'' \<mapsto> dict_get item ''start'',
      ''end'' \<mapsto> dict_get item ''end'',
      ''text'' \<mapsto> dict_get item ''text'',
      ''timestamp'' \<mapsto> dict_get item ''start''] ++ metadata"

text \<open>
  The two loops of \<^verbatim>\<open>index_video\<close> over \<^verbatim>\<open>points\<close>.  \<open>uuid4 n\<close> is the identifier
  that the \<open>n\<close>-th call of \<^verbatim>\<open>uuid.uuid4()\<close> yields during the call.
\<close>

fun visual_points ::
  "(nat \<Rightarrow> string) \<Rightarrow> string \<Rightarrow> pydict \<Rightarrow> pydict list \<Rightarrow> point list \<Rightarrow> point list" where
  "visual_points uuid4 video_id metadata [] points = points"
| "visual_points uuid4 video_id metadata (item # items) points =
     visual_points uuid4 video_id metadata items
       (if truthy (dict_get item ''vector'') then
          points @ [\<lparr>point_id = uuid4 (length points), vector = dict_get item ''vector'',
                     payload = visual_payload video_id item metadata\<rparr>]
        else points)"

fun audio_points ::
  "(nat \<Rightarrow> string) \<Rightarrow> string \<Rightarrow> pydict \<Rightarrow> pydict list \<Rightarrow> point list \<Rightarrow> point list" where
  "audio_points uuid4 video_id metadata [] points = points"
| "audio_points uuid4 video_id metadata (item # items) points =
     audio_points uuid4 video_id metadata items
       (if truthy (dict_get item ''vector'') then
          points @ [\<lparr>point_id = uuid4 (length points), vector = dict_get item ''vector'',
                     payload = audio_payload video_id item metadata\<rparr>]
        else points)"

definition build_points ::
  "(nat \<Rightarrow> string) \<Rightarrow> string \<Rightarrow> pydict list \<Rightarrow> pydict list \<Rightarrow> pydict \<Rightarrow> point list" where
  "build_points uuid4 video_id visual_vectors audio_vectors metadata =
     audio_points uuid4 video_id metadata audio_vectors
       (visual_points uuid4 video_id metadata visual_vectors [])"

definition index_video ::
  "'img VectorStore \<Rightarrow> (nat \<Rightarrow> string) \<Rightarrow> string \<Rightarrow> pydict list \<Rightarrow> pydict list \<Rightarrow> pydict
     \<Rightarrow> event list" where
  "index_video st uuid4 video_id visual_vectors audio_vectors metadata =
     (let points = build_points uuid4 video_id visual_vectors audio_vectors metadata in
      if points \<noteq> [] then
        (if upsert_raises (client st) points then [Upsert points, Log ERROR FailedToUpsert]
         else [Upsert points, Log INFO (IndexedPoints (length points) video_id)])
      else [Log WARNING NoValidPoints])"

text \<open>The batches passed to \<^verbatim>\<open>client.upsert\<close> during a call.\<close>

fun upserts :: "event list \<Rightarrow> point list list" where
  "upserts [] = []"
| "upserts (Upsert ps # evs) = ps # upserts evs"
| "upserts (_ # evs) = upserts evs"





section \<open>The ingestion task: \<^verbatim>\<open>api.py\<close>\<close>

record 'img app_state =
  app_embedding_engine :: "'img EmbeddingEngine"
  app_vector_store :: "'img VectorStore"

text \<open>\<^verbatim>\<open>os.path.basename\<close>: what follows the last separator.\<close>

definition basename :: "string \<Rightarrow> string" where
  "basename p = rev (takeWhile (\<lambda>c. c \<noteq> CHR ''/'') (rev p))"

text \<open>
  The loops that pair each frame (segment) with \<^verbatim>\<open>visual_embeddings[i]\<close>
  (\<^verbatim>\<open>audio_embeddings[i]\<close>); the subscript raises \<^verbatim>\<open>IndexError\<close> beyond the end of the
  list.
\<close>

fun visual_vectors_data ::
  "vec list \<Rightarrow> nat \<Rightarrow> 'img frame list \<Rightarrow> pydict list \<Rightarrow> error + pydict list" where
  "visual_vectors_data visual_embeddings i [] acc = Inr acc"
| "visual_vectors_data visual_embeddings i (frame # rest) acc =
     (if i < length visual_embeddings then
        visual_vectors_data visual_embeddings (i + 1) rest
          (acc @ [[''vector'' \<mapsto> PList (visual_embeddings ! i),
                   ''timestamp'' \<mapsto> PNum (timestamp frame)]])
      else Inl IndexError)"

fun audio_vectors_data ::
  "vec list \<Rightarrow> nat \<Rightarrow> segment list \<Rightarrow> pydict list \<Rightarrow> error + pydict list" where
  "audio_vectors_data audio_embeddings i [] acc = Inr acc"
| "audio_vectors_data audio_embeddings i (segment # rest) acc =
     (if i < length audio_embeddings then
        audio_vectors_data audio_embeddings (i + 1) rest
          (acc @ [[''vector'' \<mapsto> PList (audio_embeddings ! i),
                   ''start'' \<mapsto> PNum (seg_start segment),
                   ''end'' \<mapsto> PNum (seg_end segment),
                   ''text'' \<mapsto> PStr (seg_text segment)]])
      else Inl IndexError)"

text \<open>
  Steps 2 to 4 of \<^verbatim>\<open>process_video_task\<close> and the clean-up of the uploaded file, once
  both extractions have returned.  An \<^verbatim>\<open>Exception\<close> raised on the way is the \<open>Inl\<close>
  result, which the task's handler logs.
\<close>

definition embed_and_index ::
  "'img app_state \<Rightarrow> (nat \<Rightarrow> string) \<Rightarrow> 'img video_file \<Rightarrow> string \<Rightarrow> string
     \<Rightarrow> 'img frame list \<Rightarrow> segment list \<Rightarrow> (error + unit) \<times> event list" where
  "embed_and_index app uuid4 v file_path video_id frames audio_segments =
     (let (visual_embeddings, ev1) =
            (if frames \<noteq> [] then encode_images (app_embedding_engine app) (map pil_image frames)
             else ([], []))
      in case visual_vectors_data visual_embeddings 0 frames [] of
           Inl e \<Rightarrow> (Inl e, ev1)
         | Inr visual \<Rightarrow>
             (let (audio_embeddings, ev2) =
                    (if audio_segments \<noteq> [] then
                       encode_text (app_embedding_engine app) (map seg_text audio_segments)
                     else ([], []))
              in case audio_vectors_data audio_embeddings 0 audio_segments [] of
                   Inl e \<Rightarrow> (Inl e, ev1 @ ev2)
                 | Inr audio \<Rightarrow>
                     (let ev3 = index_video (app_vector_store app) uuid4 video_id visual audio
                                  [''filename'' \<mapsto> PStr (basename file_path)];
                          evs = ev1 @ ev2 @ ev3 @ [Log INFO (CompletedProcessing video_id)]
                      in if file_exists v then
                           (if remove_raises v then (Inl OSError, evs @ [RemoveFile file_path])
                            else (Inr (), evs @ [RemoveFile file_path]))
                         else (Inr (), evs))))"

text \<open>
  \<^verbatim>\<open>process_video_task\<close>: the result is the fault that leaves the task, if any (only a
  \<^verbatim>\<open>BaseException\<close> passes the handler), the files left behind, and the events.  The
  task ends normally only after the uploaded file, if it exists, has been removed.
\<close>

definition process_video_task ::
  "'img app_state \<Rightarrow> (nat \<Rightarrow> string) \<Rightarrow> 'img video_file \<Rightarrow> string set \<Rightarrow> string \<Rightarrow> string
     \<Rightarrow> error option \<times> string set \<times> event list" where
  "process_video_task app uuid4 v fs file_path video_id =
     (let ev0 = [Log INFO (StartingProcessing video_id)] in
      case extract_frames v 2 of
        (Inl e, evf) \<Rightarrow> (None, fs, ev0 @ evf @ [Log ERROR (ErrorProcessingVideo video_id e)])
      | (Inr frames, evf) \<Rightarrow>
          (case extract_audio_segments v fs of
             (Inl KeyboardInterrupt, fs', eva) \<Rightarrow> (Some KeyboardInterrupt, fs', ev0 @ evf @ eva)
           | (Inl e, fs', eva) \<Rightarrow>
               (None, fs', ev0 @ evf @ eva @ [Log ERROR (ErrorProcessingVideo video_id e)])
           | (Inr audio_segments, fs', eva) \<Rightarrow>
               (case embed_and_index app uuid4 v file_path video_id frames audio_segments of
                  (Inl e, evi) \<Rightarrow>
                    (None, fs', ev0 @ evf @ eva @ evi @ [Log ERROR (ErrorProcessingVideo video_id e)])
                | (Inr u, evi) \<Rightarrow>
                    (None, (if file_exists v then fs' - {file_path} else fs'),
                     ev0 @ evf @ eva @ evi))))"

section \<open>Example inputs\<close>



text \<open>
  A one-frame clip with speech: Whisper returns one segment with text and one that is
  only whitespace.
\<close>

definition talk :: "nat video_file" where
  "talk = \<lparr>file_exists = True, cap_opened = True, cap_fps = 25,
     cap_frames = [\<lparr>rgb = Some 0, pos_msec = 0\<rparr>],
     clip_fault = None, has_audio = True, mkstemp = Some ''/tmp/tmpa1.mp3'',
     write_audiofile_fault = None,
     transcribe = Inr (Some [\<lparr>seg_start = 0, seg_end = 2, seg_text = '' Hello world ''\<rparr>,
                             \<lparr>seg_start = 2, seg_end = 3, seg_text = ''  ''\<rparr>]),
     remove_raises = False\<rparr>"

text \<open>
  The identifiers that \<^verbatim>\<open>uuid4\<close> yields in the examples.
\<close>

definition demo_uuid4 :: "nat \<Rightarrow> string" where
  "demo_uuid4 n = replicate (Suc n) (CHR ''a'')"

text \<open>
  An engine whose model raises on every image batch and embeds every text.
\<close>

definition images_fail :: "nat EmbeddingEngine" where
  "images_fail = \<lparr>model_encode_images = (\<lambda>images. None),
                   model_encode_text = (\<lambda>texts. Some (map (\<lambda>t. [1, 0]) texts))\<rparr>"

definition demo_app :: "nat app_state" where
  "demo_app = \<lparr>app_embedding_engine = images_fail,
     app_vector_store = \<lparr>collection_name = ''neuro_stream'', embedding_engine = Some images_fail,
        client = \<lparr>upsert_raises = (\<lambda>points. False), query_points = (\<lambda>q k. Some [])\<rparr>\<rparr>\<rparr>"

text \<open>
  The items, metadata and hits of a small index: one frame and one segment of
  \<^verbatim>\<open>talk.mp4\<close>.
\<close>

definition demo_visual :: "pydict list" where
  "demo_visual = [[''vector'' \<mapsto> PList [1, 0], ''timestamp'' \<mapsto> PNum 4]]"

definition demo_audio :: "pydict list" where
  "demo_audio = [[''vector'' \<mapsto> PList [0, 1], ''start'' \<mapsto> PNum 0, ''end'' \<mapsto> PNum 2,
                  ''text'' \<mapsto> PStr ''Hello world'']]"

definition demo_metadata :: pydict where
  "demo_metadata = [''filename'' \<mapsto> PStr ''talk.mp4'']"

definition demo_hits :: "hit list" where
  "demo_hits = map (\<lambda>p. \<lparr>hit_score = 9 / 10, hit_payload = Some (payload p)\<rparr>)
     (build_points demo_uuid4 ''v1'' demo_visual demo_audio demo_metadata)"

definition demo_store :: "nat VectorStore" where
  "demo_store = \<lparr>collection_name = ''neuro_stream'', embedding_engine = Some images_fail,
     client = \<lparr>upsert_raises = (\<lambda>points. False), query_points = (\<lambda>q k. Some demo_hits)\<rparr>\<rparr>"


section \<open>Properties of the embedding engine\<close>

text \<open>
  C8. \<^verbatim>\<open>encode_images\<close> and \<^verbatim>\<open>encode_text\<close> return the model's vectors unchanged: when
  the model, on a well-formed batch, yields one vector per input (the vector of input
  \<open>i\<close> at position \<open>i\<close>), so does the engine, with the same length and order.  An empty
  input yields an empty output and the model is not invoked.
\<close>

theorem encode_order_length_preserving:
  "(model_encode_images eng images = Some (map embed_image images) \<longrightarrow>
      fst (encode_images eng images) = map embed_image images
      \<and> length (fst (encode_images eng images)) = length images
      \<and> (\<forall>i < length images. fst (encode_images eng images) ! i = embed_image (images ! i)))
   \<and> (model_encode_text eng text_list = Some (map embed_text text_list) \<longrightarrow>
      fst (encode_text eng text_list) = map embed_text text_list
      \<and> length (fst (encode_text eng text_list)) = length text_list
      \<and> (\<forall>i < length text_list. fst (encode_text eng text_list) ! i = embed_text (text_list ! i)))
   \<and> encode_images eng [] = ([], []) \<and> model_calls (snd (encode_images eng [])) = []
   \<and> encode_text eng [] = ([], []) \<and> model_calls (snd (encode_text eng [])) = []"
  by (simp add: encode_images_def encode_text_def)

theorem encode_order_length_preserving_witness:
  "model_encode_images
      \<lparr>model_encode_images = (\<lambda>xs. Some (map (\<lambda>n. [of_nat n, 0]) xs)),
       model_encode_text = (\<lambda>ts. Some (map (\<lambda>t. [of_nat (length t), 1]) ts))\<rparr> [3, 1, 2 :: nat]
     = Some (map (\<lambda>n. [of_nat n, 0]) [3, 1, 2])
   \<and> model_encode_text
      \<lparr>model_encode_images = (\<lambda>xs. Some (map (\<lambda>n. [of_nat n, 0]) xs)),
       model_encode_text = (\<lambda>ts. Some (map (\<lambda>t. [of_nat (length t), 1]) ts))\<rparr> [''ab'', ''c'']
     = Some (map (\<lambda>t. [of_nat (length t), 1]) [''ab'', ''c''])
   \<and> fst (encode_images
      \<lparr>model_encode_images = (\<lambda>xs. Some (map (\<lambda>n. [of_nat n, 0]) xs)),
       model_encode_text = (\<lambda>ts. Some (map (\<lambda>t. [of_nat (length t), 1]) ts))\<rparr> [3, 1, 2 :: nat])
     = [[3, 0], [1, 0], [2, 0]]
   \<and> fst (encode_text
      \<lparr>model_encode_images = (\<lambda>xs. Some (map (\<lambda>n. [of_nat n, 0]) xs)),
       model_encode_text = (\<lambda>ts. Some (map (\<lambda>t. [of_nat (length t), 1]) ts))\<rparr> [''ab'', ''c''])
     = [[2, 1], [1, 1]]"
  using encode_order_length_preserving
    [of "\<lparr>model_encode_images = (\<lambda>xs. Some (map (\<lambda>n. [of_nat n, 0]) xs)),
          model_encode_text = (\<lambda>ts. Some (map (\<lambda>t. [of_nat (length t), 1]) ts))\<rparr>"
        "[3, 1, 2 :: nat]" "\<lambda>n. [of_nat n, 0]" "[''ab'', ''c'']" "\<lambda>t. [of_nat (length t), 1]"]
  by simp

section \<open>Properties of frame sampling\<close>








section \<open>Properties of audio extraction\<close>

lemma audio_try_files:
  "files (audio_try v fs) = fs \<and> temp_audio_path (audio_try v fs) = None
   \<or> (\<exists>p. mkstemp v = Some p \<and> files (audio_try v fs) = insert p fs
          \<and> temp_audio_path (audio_try v fs) = Some p)"
  by (simp add: audio_try_def split: option.splits sum.splits)

text \<open>
  C7 (amended). On an existing video file, whatever way the call leaves (the early return
  without audio track, the normal end, a caught exception, a fault that propagates), the
  \<^verbatim>\<open>finally\<close> block tries to remove the temporary audio file: when \<^verbatim>\<open>os.remove\<close> does not
  raise, the files after the call are the files before it; when it raises \<^verbatim>\<open>OSError\<close>,
  the error is swallowed and every file created by the call is still there.
\<close>

theorem temp_audio_removed_unless_remove_raises:
  assumes "file_exists v"
      and "\<forall>p. mkstemp v = Some p \<longrightarrow> p \<noteq> [] \<and> p \<notin> fs"
  shows "(\<not> remove_raises v \<longrightarrow> fst (snd (extract_audio_segments v fs)) = fs)
       \<and> (remove_raises v \<longrightarrow>
            fst (snd (extract_audio_segments v fs)) = files (audio_try v fs))"
proof -
  have fin: "fst (snd (extract_audio_segments v fs)) = fst (audio_finally v (audio_try v fs))"
    using assms(1)
    by (simp add: extract_audio_segments_def Let_def split: prod.splits body_exit.splits fault.splits)
  show ?thesis
    using audio_try_files [of v fs]
  proof (elim disjE exE conjE)
    assume "files (audio_try v fs) = fs" and "temp_audio_path (audio_try v fs) = None"
    then show ?thesis using fin by (simp add: audio_finally_def)
  next
    fix p
    assume made: "mkstemp v = Some p" "files (audio_try v fs) = insert p fs"
      "temp_audio_path (audio_try v fs) = Some p"
    then have "p \<noteq> []" and "p \<notin> fs" using assms(2) by auto
    then show ?thesis using fin made by (simp add: audio_finally_def)
  qed
qed

theorem temp_audio_removed_unless_remove_raises_witness:
  "file_exists (talk\<lparr>transcribe := Inl Exc\<rparr>)
   \<and> mkstemp (talk\<lparr>transcribe := Inl Exc\<rparr>) = Some ''/tmp/tmpa1.mp3''
   \<and> ''/tmp/tmpa1.mp3'' \<notin> {''temp_v1_talk.mp4''}
   \<and> \<not> remove_raises (talk\<lparr>transcribe := Inl Exc\<rparr>)
   \<and> files (audio_try (talk\<lparr>transcribe := Inl Exc\<rparr>) {''temp_v1_talk.mp4''})
       = {''/tmp/tmpa1.mp3'', ''temp_v1_talk.mp4''}
   \<and> fst (snd (extract_audio_segments (talk\<lparr>transcribe := Inl Exc\<rparr>) {''temp_v1_talk.mp4''}))
       = {''temp_v1_talk.mp4''}"
  using temp_audio_removed_unless_remove_raises
    [of "talk\<lparr>transcribe := Inl Exc\<rparr>" "{''temp_v1_talk.mp4''}"]
  by (simp add: talk_def audio_try_def)

text \<open>
  C7 as stated fails when \<^verbatim>\<open>os.remove\<close> raises \<^verbatim>\<open>OSError\<close>: the call returns normally and
  the temporary audio file persists.
\<close>

theorem temp_audio_persists_counterexample:
  "extract_audio_segments (talk\<lparr>remove_raises := True\<rparr>) {}
     = (Inr [\<lparr>seg_start = 0, seg_end = 2, seg_text = ''Hello world''\<rparr>,
             \<lparr>seg_start = 2, seg_end = 3, seg_text = []\<rparr>],
        {''/tmp/tmpa1.mp3''},
        [RemoveFile ''/tmp/tmpa1.mp3'', Log INFO (ExtractedAudioSegments 2)])"
  by (simp add: talk_def extract_audio_segments_def audio_try_def audio_finally_def
      strip_segment_def strip_def isspace_def)

lemma strip_decompose:
  "\<exists>pre suf. s = pre @ strip s @ suf \<and> (\<forall>c \<in> set pre. isspace c) \<and> (\<forall>c \<in> set suf. isspace c)"
proof -
  let ?a = "takeWhile isspace s" and ?b = "dropWhile isspace s"
  let ?suf = "rev (takeWhile isspace (rev ?b))"
  have "rev ?b = takeWhile isspace (rev ?b) @ dropWhile isspace (rev ?b)" by simp
  then have "?b = rev (dropWhile isspace (rev ?b)) @ ?suf"
    by (metis rev_append rev_rev_ident)
  then have "s = ?a @ strip s @ ?suf"
    unfolding strip_def by (metis takeWhile_dropWhile_id)
  moreover have "\<forall>c \<in> set ?a. isspace c" by (auto dest: set_takeWhileD)
  moreover have "\<forall>c \<in> set ?suf. isspace c" by (auto dest: set_takeWhileD)
  ultimately show ?thesis by blast
qed

lemma strip_ends:
  "strip s \<noteq> [] \<Longrightarrow> \<not> isspace (hd (strip s)) \<and> \<not> isspace (last (strip s))"
proof -
  assume ne: "strip s \<noteq> []"
  let ?b = "dropWhile isspace s"
  let ?r = "dropWhile isspace (rev ?b)"
  have r_ne: "?r \<noteq> []" using ne by (simp add: strip_def)
  have last_ok: "\<not> isspace (hd ?r)" using r_ne by (rule hd_dropWhile)
  have "last (strip s) = hd ?r" using r_ne by (simp add: strip_def last_rev)
  then have l: "\<not> isspace (last (strip s))" using last_ok by simp
  have b_ne: "?b \<noteq> []"
  proof
    assume e: "?b = []"
    have "?r = []" by (simp only: e rev.simps(1) dropWhile.simps(1))
    with r_ne show False by blast
  qed
  have hb: "\<not> isspace (hd ?b)" using b_ne by (rule hd_dropWhile)
  obtain suf where "?b = strip s @ suf"
    by (metis strip_def append_take_drop_id rev_append rev_rev_ident takeWhile_dropWhile_id)
  then have "hd (strip s) = hd ?b" using ne by (metis hd_append2)
  then show ?thesis using hb l by simp
qed

lemma extract_audio_segments_success:
  assumes "file_exists v" and "clip_fault v = None" and "has_audio v" and "mkstemp v = Some p"
      and "write_audiofile_fault v = None" and "transcribe v = Inr (Some raw)"
  shows "fst (extract_audio_segments v fs) = Inr (map strip_segment raw)"
  using assms
  by (simp add: extract_audio_segments_def audio_try_def Let_def split: prod.splits)

text \<open>
  C2 (amended). When transcription succeeds, the output has one segment per raw segment, in
  the same order, with the same start and end and with the text trimmed of surrounding
  whitespace (a whitespace prefix and suffix are removed, and a non-empty result neither
  starts nor ends with whitespace).  No segment is dropped: a segment whose trimmed text
  is empty stays in the output with empty text.
\<close>

theorem audio_segments_trimmed_not_dropped:
  assumes "file_exists v" and "clip_fault v = None" and "has_audio v" and "mkstemp v = Some p"
      and "write_audiofile_fault v = None" and "transcribe v = Inr (Some raw)"
  shows "\<exists>out. fst (extract_audio_segments v fs) = Inr out
           \<and> length out = length raw
           \<and> (\<forall>i < length raw.
                 seg_start (out ! i) = seg_start (raw ! i)
               \<and> seg_end (out ! i) = seg_end (raw ! i)
               \<and> seg_text (out ! i) = strip (seg_text (raw ! i))
               \<and> (\<exists>pre suf. seg_text (raw ! i) = pre @ seg_text (out ! i) @ suf
                     \<and> (\<forall>c \<in> set pre. isspace c) \<and> (\<forall>c \<in> set suf. isspace c))
               \<and> (seg_text (out ! i) \<noteq> [] \<longrightarrow>
                     \<not> isspace (hd (seg_text (out ! i))) \<and> \<not> isspace (last (seg_text (out ! i)))))"
proof -
  have out: "fst (extract_audio_segments v fs) = Inr (map strip_segment raw)"
    using assms by (rule extract_audio_segments_success)
  show ?thesis
    using strip_decompose strip_ends by (simp add: out strip_segment_def)
qed

theorem audio_segments_trimmed_not_dropped_witness:
  "file_exists talk \<and> clip_fault talk = None \<and> has_audio talk
   \<and> mkstemp talk = Some ''/tmp/tmpa1.mp3'' \<and> write_audiofile_fault talk = None
   \<and> (\<exists>out. fst (extract_audio_segments talk {}) = Inr out \<and> length out = 2
         \<and> seg_text (out ! 0) = ''Hello world'')"
proof -
  have t: "transcribe talk = Inr (Some [\<lparr>seg_start = 0, seg_end = 2, seg_text = '' Hello world ''\<rparr>,
                             \<lparr>seg_start = 2, seg_end = 3, seg_text = ''  ''\<rparr>])"
    by (simp add: talk_def)
  have h: "file_exists talk" "clip_fault talk = None" "has_audio talk"
    "mkstemp talk = Some ''/tmp/tmpa1.mp3''" "write_audiofile_fault talk = None"
    by (simp_all add: talk_def)
  obtain out where o: "fst (extract_audio_segments talk {}) = Inr out" "length out = 2"
    "seg_text (out ! 0) = strip '' Hello world ''"
    using audio_segments_trimmed_not_dropped [OF h t, of "{}"] by auto
  have "strip '' Hello world '' = ''Hello world''" by (simp add: strip_def isspace_def)
  with o h show ?thesis by auto
qed

text \<open>
  C2 as stated fails on a segment of whitespace only: it is emitted with empty text.
\<close>

theorem audio_segments_empty_text_counterexample:
  "fst (extract_audio_segments talk {})
     = Inr [\<lparr>seg_start = 0, seg_end = 2, seg_text = ''Hello world''\<rparr>,
            \<lparr>seg_start = 2, seg_end = 3, seg_text = []\<rparr>]"
  by (simp add: talk_def extract_audio_segments_def audio_try_def audio_finally_def
      strip_segment_def strip_def isspace_def)

section \<open>Properties of indexing\<close>

lemma visual_points_mem:
  "p \<in> set (visual_points uuid4 vid md items acc) \<Longrightarrow>
     p \<in> set acc \<or> (\<exists>item \<in> set items. truthy (dict_get item ''vector'')
                        \<and> payload p = visual_payload vid item md)"
proof (induction items arbitrary: acc)
  case Nil
  then show ?case by simp
next
  case (Cons item items)
  show ?case
  proof (cases "truthy (dict_get item ''vector'')")
    case True
    with Cons.prems have "p \<in> set (visual_points uuid4 vid md items
        (acc @ [\<lparr>point_id = uuid4 (length acc), vector = dict_get item ''vector'',
                  payload = visual_payload vid item md\<rparr>]))"
      by simp
    from Cons.IH [OF this] show ?thesis using True by auto
  next
    case False
    with Cons.prems have "p \<in> set (visual_points uuid4 vid md items acc)" by simp
    from Cons.IH [OF this] show ?thesis by auto
  qed
qed

lemma audio_points_mem:
  "p \<in> set (audio_points uuid4 vid md items acc) \<Longrightarrow>
     p \<in> set acc \<or> (\<exists>item \<in> set items. truthy (dict_get item ''vector'')
                        \<and> payload p = audio_payload vid item md)"
proof (induction items arbitrary: acc)
  case Nil
  then show ?case by simp
next
  case (Cons item items)
  show ?case
  proof (cases "truthy (dict_get item ''vector'')")
    case True
    with Cons.prems have "p \<in> set (audio_points uuid4 vid md items
        (acc @ [\<lparr>point_id = uuid4 (length acc), vector = dict_get item ''vector'',
                  payload = audio_payload vid item md\<rparr>]))"
      by simp
    from Cons.IH [OF this] show ?thesis using True by auto
  next
    case False
    with Cons.prems have "p \<in> set (audio_points uuid4 vid md items acc)" by simp
    from Cons.IH [OF this] show ?thesis by auto
  qed
qed

lemma build_points_mem:
  assumes "p \<in> set (build_points uuid4 vid vis aud md)"
  shows "(\<exists>item \<in> set vis. truthy (dict_get item ''vector'') \<and> payload p = visual_payload vid item md)
       \<or> (\<exists>item \<in> set aud. truthy (dict_get item ''vector'') \<and> payload p = audio_payload vid item md)"
  using assms audio_points_mem visual_points_mem
  unfolding build_points_def by fastforce

lemma visual_points_length:
  "length (visual_points uuid4 vid md items acc)
     = length acc + length (filter (\<lambda>item. truthy (dict_get item ''vector'')) items)"
  by (induction items arbitrary: acc) auto

lemma audio_points_length:
  "length (audio_points uuid4 vid md items acc)
     = length acc + length (filter (\<lambda>item. truthy (dict_get item ''vector'')) items)"
  by (induction items arbitrary: acc) auto

lemma build_points_empty_iff:
  "build_points uuid4 vid vis aud md = []
     \<longleftrightarrow> (\<forall>item \<in> set vis \<union> set aud. \<not> truthy (dict_get item ''vector''))"
proof -
  have "length (build_points uuid4 vid vis aud md)
          = length (filter (\<lambda>item. truthy (dict_get item ''vector'')) vis)
          + length (filter (\<lambda>item. truthy (dict_get item ''vector'')) aud)"
    by (simp add: build_points_def audio_points_length visual_points_length)
  then have "build_points uuid4 vid vis aud md = []
     \<longleftrightarrow> filter (\<lambda>item. truthy (dict_get item ''vector'')) vis = []
       \<and> filter (\<lambda>item. truthy (dict_get item ''vector'')) aud = []"
    by (metis add_is_0 length_0_conv)
  then show ?thesis by (auto simp: filter_empty_conv)
qed

lemma visual_payload_lookup:
  "k \<notin> dom md \<Longrightarrow> visual_payload vid item md k
     = [''video_id'' \<mapsto> PStr vid, ''type'' \<mapsto> PStr ''visual'',
        ''timestamp'' \<mapsto> dict_get item ''timestamp''] k"
  by (simp add: visual_payload_def map_add_def domIff)

lemma audio_payload_lookup:
  "k \<notin> dom md \<Longrightarrow> audio_payload vid item md k
     = [''video_id'' \<mapsto> PStr vid, ''type'' \<mapsto> PStr ''audio'',
        ''start'' \<mapsto> dict_get item ''start'', ''end'' \<mapsto> dict_get item ''end'',
        ''text'' \<mapsto> dict_get item ''text'', ''timestamp'' \<mapsto> dict_get item ''start''] k"
  by (simp add: audio_payload_def map_add_def domIff)

lemma visual_payload_dom:
  "dom (visual_payload vid item md) = {''video_id'', ''type'', ''timestamp''} \<union> dom md"
  by (auto simp: visual_payload_def)

lemma audio_payload_dom:
  "dom (audio_payload vid item md)
     = {''video_id'', ''type'', ''start'', ''end'', ''text'', ''timestamp''} \<union> dom md"
  by (auto simp: audio_payload_def)

text \<open>
  C4 (amended). Every point that \<^verbatim>\<open>index_video\<close> constructs has a payload with the keys
  \<^verbatim>\<open>video_id\<close>, \<^verbatim>\<open>type\<close> (the modality) and \<^verbatim>\<open>timestamp\<close>.  The metadata is spread
  last and overrides the built-in entries, so the rest holds for keys that the metadata
  does not contain: without \<^verbatim>\<open>type\<close> in the metadata the modality is \<^verbatim>\<open>visual\<close> or
  \<^verbatim>\<open>audio\<close>, an audio payload also has \<^verbatim>\<open>start\<close>, \<^verbatim>\<open>end\<close> and \<^verbatim>\<open>text\<close>, and its
  \<^verbatim>\<open>timestamp\<close> equals its \<^verbatim>\<open>start\<close> when the metadata has neither key; a visual
  payload has no \<^verbatim>\<open>text\<close> key when the metadata has none.
\<close>

theorem index_video_payload_keys:
  assumes "p \<in> set (build_points uuid4 vid vis aud md)"
  shows "{''video_id'', ''type'', ''timestamp''} \<subseteq> dom (payload p)
       \<and> (''type'' \<notin> dom md \<longrightarrow>
            (payload p ''type'' = Some (PStr ''visual'') \<or> payload p ''type'' = Some (PStr ''audio''))
          \<and> (payload p ''type'' = Some (PStr ''audio'') \<longrightarrow>
                {''start'', ''end'', ''text''} \<subseteq> dom (payload p)
              \<and> (''timestamp'' \<notin> dom md \<and> ''start'' \<notin> dom md \<longrightarrow>
                    payload p ''timestamp'' = payload p ''start''))
          \<and> (payload p ''type'' = Some (PStr ''visual'') \<and> ''text'' \<notin> dom md \<longrightarrow>
                ''text'' \<notin> dom (payload p)))"
proof -
  consider (visual) item where "item \<in> set vis" "payload p = visual_payload vid item md"
    | (audio) item where "item \<in> set aud" "payload p = audio_payload vid item md"
    using build_points_mem [OF assms] by blast
  then show ?thesis
  proof cases
    case visual
    have d: "dom (payload p) = {''video_id'', ''type'', ''timestamp''} \<union> dom md"
      using visual by (simp add: visual_payload_dom)
    have t: "''type'' \<notin> dom md \<Longrightarrow> payload p ''type'' = Some (PStr ''visual'')"
      using visual by (simp add: visual_payload_lookup)
    show ?thesis using d t by auto
  next
    case audio
    have d: "dom (payload p)
        = {''video_id'', ''type'', ''start'', ''end'', ''text'', ''timestamp''} \<union> dom md"
      using audio by (simp add: audio_payload_dom)
    have t: "''type'' \<notin> dom md \<Longrightarrow> payload p ''type'' = Some (PStr ''audio'')"
      using audio by (simp add: audio_payload_lookup)
    have s: "''timestamp'' \<notin> dom md \<Longrightarrow> ''start'' \<notin> dom md \<Longrightarrow>
               payload p ''timestamp'' = payload p ''start''"
      using audio by (simp add: audio_payload_lookup)
    show ?thesis using d t s by auto
  qed
qed

theorem index_video_payload_keys_witness:
  "build_points demo_uuid4 ''v1'' demo_visual demo_audio demo_metadata ! 1
     \<in> set (build_points demo_uuid4 ''v1'' demo_visual demo_audio demo_metadata)
   \<and> ''type'' \<notin> dom demo_metadata \<and> ''timestamp'' \<notin> dom demo_metadata
   \<and> ''start'' \<notin> dom demo_metadata
   \<and> payload (build_points demo_uuid4 ''v1'' demo_visual demo_audio demo_metadata ! 1) ''type''
       = Some (PStr ''audio'')
   \<and> payload (build_points demo_uuid4 ''v1'' demo_visual demo_audio demo_metadata ! 1) ''timestamp''
       = payload (build_points demo_uuid4 ''v1'' demo_visual demo_audio demo_metadata ! 1) ''start''"
proof -
  have m: "build_points demo_uuid4 ''v1'' demo_visual demo_audio demo_metadata ! 1
     \<in> set (build_points demo_uuid4 ''v1'' demo_visual demo_audio demo_metadata)"
    by (simp add: build_points_def demo_visual_def demo_audio_def dict_get_def)
  have d: "''type'' \<notin> dom demo_metadata" "''timestamp'' \<notin> dom demo_metadata"
    "''start'' \<notin> dom demo_metadata"
    by (simp_all add: demo_metadata_def)
  have t: "payload (build_points demo_uuid4 ''v1'' demo_visual demo_audio demo_metadata ! 1) ''type''
       = Some (PStr ''audio'')"
    by (simp add: build_points_def demo_visual_def demo_audio_def demo_metadata_def dict_get_def
        audio_payload_def)
  show ?thesis
    using index_video_payload_keys [OF m] m d t by simp
qed

text \<open>
  C4 as stated fails when the metadata has a \<^verbatim>\<open>text\<close> entry: the visual point's
  payload carries it.
\<close>

theorem index_video_metadata_override_counterexample:
  "payload (build_points demo_uuid4 ''v1'' demo_visual [] [''text'' \<mapsto> PStr ''note''] ! 0) ''type''
     = Some (PStr ''visual'')
   \<and> payload (build_points demo_uuid4 ''v1'' demo_visual [] [''text'' \<mapsto> PStr ''note''] ! 0) ''text''
     = Some (PStr ''note'')
   \<and> length (build_points demo_uuid4 ''v1'' demo_visual [] [''text'' \<mapsto> PStr ''note'']) = 1"
  by (simp add: build_points_def demo_visual_def dict_get_def visual_payload_def)

text \<open>
  C9. When no point was constructed (no item has a non-empty vector), \<^verbatim>\<open>index_video\<close>
  only logs the warning "No valid points to index." and does not call \<^verbatim>\<open>upsert\<close>; when
  at least one point was constructed it calls \<^verbatim>\<open>upsert\<close> once, with all points, and does
  not log that warning.
\<close>

theorem index_video_empty_no_upsert:
  "(build_points uuid4 vid vis aud md = [] \<longrightarrow>
      index_video st uuid4 vid vis aud md = [Log WARNING NoValidPoints])
   \<and> (build_points uuid4 vid vis aud md \<noteq> [] \<longrightarrow>
      upserts (index_video st uuid4 vid vis aud md) = [build_points uuid4 vid vis aud md]
      \<and> Log WARNING NoValidPoints \<notin> set (index_video st uuid4 vid vis aud md))
   \<and> (upserts (index_video st uuid4 vid vis aud md) = []
        \<longleftrightarrow> build_points uuid4 vid vis aud md = [])
   \<and> (build_points uuid4 vid vis aud md = []
        \<longleftrightarrow> (\<forall>item \<in> set vis \<union> set aud. \<not> truthy (dict_get item ''vector'')))"
  using build_points_empty_iff [of uuid4 vid vis aud md]
  by (simp add: index_video_def Let_def)

theorem index_video_empty_no_upsert_witness:
  "build_points demo_uuid4 ''v1'' [[''timestamp'' \<mapsto> PNum 4]] [[''vector'' \<mapsto> PList []]]
      demo_metadata = []
   \<and> index_video demo_store demo_uuid4 ''v1'' [[''timestamp'' \<mapsto> PNum 4]]
        [[''vector'' \<mapsto> PList []]] demo_metadata = [Log WARNING NoValidPoints]
   \<and> build_points demo_uuid4 ''v1'' demo_visual demo_audio demo_metadata \<noteq> []
   \<and> length (upserts (index_video demo_store demo_uuid4 ''v1'' demo_visual demo_audio
        demo_metadata)) = 1"
proof -
  have e: "build_points demo_uuid4 ''v1'' [[''timestamp'' \<mapsto> PNum 4]]
      [[''vector'' \<mapsto> PList []]] demo_metadata = []"
    by (simp add: build_points_def dict_get_def)
  have n: "build_points demo_uuid4 ''v1'' demo_visual demo_audio demo_metadata \<noteq> []"
    by (simp add: build_points_def demo_visual_def demo_audio_def dict_get_def)
  show ?thesis
    using e n
      index_video_empty_no_upsert [of demo_uuid4 "''v1''" "[[''timestamp'' \<mapsto> PNum 4]]"
        "[[''vector'' \<mapsto> PList []]]" demo_metadata demo_store]
      index_video_empty_no_upsert [of demo_uuid4 "''v1''" demo_visual demo_audio demo_metadata
        demo_store]
    by simp
qed

section \<open>Properties of search\<close>












section \<open>Properties of ingestion\<close>

text \<open>
  C1. The ingestion of \<open>talk\<close> with an engine whose image model fails:
  \<^verbatim>\<open>encode_images\<close> returns the empty list, \<^verbatim>\<open>visual_embeddings[0]\<close> raises
  \<^verbatim>\<open>IndexError\<close>, the handler of the task logs it and \<^verbatim>\<open>index_video\<close> is never
  called: nothing is upserted, although the text model works and the same clip without
  frames upserts its two audio points.
\<close>

theorem ingestion_aborts_when_image_embedding_fails:
  "process_video_task demo_app demo_uuid4 talk {} ''temp_v1_talk.mp4'' ''v1''
     = (None, {},
        [Log INFO (StartingProcessing ''v1''), CapRelease, Log INFO (ExtractedFrames 1),
         RemoveFile ''/tmp/tmpa1.mp3'', Log INFO (ExtractedAudioSegments 2),
         ModelEncode 1, Log ERROR ErrorEncodingImages,
         Log ERROR (ErrorProcessingVideo ''v1'' IndexError)])
   \<and> upserts (snd (snd (process_video_task demo_app demo_uuid4 talk {} ''temp_v1_talk.mp4'' ''v1'')))
       = []
   \<and> map length (upserts (snd (snd (process_video_task demo_app demo_uuid4
         (talk\<lparr>cap_frames := []\<rparr>) {} ''temp_v1_talk.mp4'' ''v1''))))
       = [2]"
  by (simp add: process_video_task_def embed_and_index_def demo_app_def images_fail_def talk_def
      extract_frames_def py_int_def extract_audio_segments_def audio_try_def audio_finally_def
      strip_segment_def strip_def isspace_def encode_images_def encode_text_def index_video_def
      build_points_def dict_get_def)

end
